theory Spec2Isabelle
  imports Main
begin

section \<open>Strings, exceptions and the key-value store\<close>

text \<open>
  Python strings are modelled as \<open>string\<close>; a \<open>char\<close> stands for one code point
  below 256. Text with code points above U+00FF lies outside the model.

  Exceptions are values. \<open>HTTPException\<close> is the only exception the service raises
  itself; the others come from the Redis client, the \<open>json\<close> module, dictionary
  indexing and the language-model client.
\<close>

datatype exn =
    HTTPException nat string
  | RedisError string
  | JSONDecodeError
  | KeyError string
  | LLMError string
  | OutsideFragment

text \<open>
  A Redis key holds either a string (\<open>SET\<close>/\<open>GET\<close>) or a list
  (\<open>RPUSH\<close>/\<open>LRANGE\<close>). The world is the database together with a schedule of
  connection faults: every command sent to the server consumes the head of the schedule,
  and \<open>Some msg\<close> there makes the client raise before the command takes effect. An
  empty schedule means that the server answers. The field \<open>prompts\<close> is a log of the
  texts handed to the language model, oldest first; the service never reads it.
\<close>

datatype rval = RString string | RList "string list"

type_synonym rdb = "string \<Rightarrow> rval option"

record world =
  db :: rdb
  faults :: "string option list"
  prompts :: "string list"

definition wrongtype :: exn where
  "wrongtype = RedisError ''WRONGTYPE Operation against a key holding the wrong kind of value''"

definition redis_cmd :: "(rdb \<Rightarrow> exn + ('a \<times> rdb)) \<Rightarrow> world \<Rightarrow> (exn + 'a) \<times> world" where
  "redis_cmd f w =
     (case faults w of
        Some msg # fs \<Rightarrow> (Inl (RedisError msg), w\<lparr>faults := fs\<rparr>)
      | _ \<Rightarrow>
          (case f (db w) of
             Inl e \<Rightarrow> (Inl e, w\<lparr>faults := tl (faults w)\<rparr>)
           | Inr (a, d) \<Rightarrow> (Inr a, w\<lparr>db := d, faults := tl (faults w)\<rparr>)))"

definition cmd_SET :: "string \<Rightarrow> string \<Rightarrow> rdb \<Rightarrow> exn + (bool \<times> rdb)" where
  "cmd_SET key v d = Inr (True, d(key \<mapsto> RString v))"

definition cmd_GET :: "string \<Rightarrow> rdb \<Rightarrow> exn + (string option \<times> rdb)" where
  "cmd_GET key d =
     (case d key of
        None \<Rightarrow> Inr (None, d)
      | Some (RString v) \<Rightarrow> Inr (Some v, d)
      | Some (RList xs) \<Rightarrow> Inl wrongtype)"

definition cmd_RPUSH :: "string \<Rightarrow> string \<Rightarrow> rdb \<Rightarrow> exn + (nat \<times> rdb)" where
  "cmd_RPUSH key v d =
     (case d key of
        None \<Rightarrow> Inr (1, d(key \<mapsto> RList [v]))
      | Some (RList xs) \<Rightarrow> Inr (Suc (length xs), d(key \<mapsto> RList (xs @ [v])))
      | Some (RString s) \<Rightarrow> Inl wrongtype)"

text \<open>\<open>LRANGE key 0 -1\<close>: the whole list, oldest first; a missing key is the empty list.\<close>

definition cmd_LRANGE_all :: "string \<Rightarrow> rdb \<Rightarrow> exn + (string list \<times> rdb)" where
  "cmd_LRANGE_all key d =
     (case d key of
        None \<Rightarrow> Inr ([], d)
      | Some (RList xs) \<Rightarrow> Inr (xs, d)
      | Some (RString s) \<Rightarrow> Inl wrongtype)"

subsection \<open>\<open>RedisService\<close> (services/redis.py)\<close>

definition set_value :: "string \<Rightarrow> string \<Rightarrow> world \<Rightarrow> (exn + bool) \<times> world" where
  "set_value key v = redis_cmd (cmd_SET key v)"

definition get_value :: "string \<Rightarrow> world \<Rightarrow> (exn + string option) \<times> world" where
  "get_value key = redis_cmd (cmd_GET key)"

definition chat_key :: "string \<Rightarrow> string" where
  "chat_key chat_id = ''chat:'' @ chat_id"

definition store_message :: "string \<Rightarrow> string \<Rightarrow> world \<Rightarrow> (exn + unit) \<times> world" where
  "store_message chat_id message w =
     (case redis_cmd (cmd_RPUSH (chat_key chat_id) message) w of
        (Inl e, w') \<Rightarrow> (Inl e, w')
      | (Inr n, w') \<Rightarrow> (Inr (), w'))"

definition get_messages :: "string \<Rightarrow> world \<Rightarrow> (exn + string list) \<times> world" where
  "get_messages chat_id = redis_cmd (cmd_LRANGE_all (chat_key chat_id))"


section \<open>The \<open>json\<close> module on message records\<close>

text \<open>
  \<open>json.dumps\<close> with its defaults (\<open>ensure_ascii\<close>; a comma and a colon are each
  followed by one space) on a dictionary with the keys \<open>role\<close> and \<open>text\<close>, in that
  order. A printable ASCII character other than the backslash and the double quote is
  copied; the others are escaped, by name where JSON has one and as a backslash, the
  letter u and four hexadecimal digits otherwise.
\<close>

definition hexdigit :: "nat \<Rightarrow> char" where
  "hexdigit n = ''0123456789abcdef'' ! n"

definition escape_char :: "char \<Rightarrow> string" where
  "escape_char c =
     (if 32 \<le> (of_char c :: nat) \<and> (of_char c :: nat) \<le> 126 \<and> c \<noteq> CHR 0x5C \<and> c \<noteq> CHR 0x22
      then [c]
      else if c = CHR 0x5C then [CHR 0x5C, CHR 0x5C]
      else if c = CHR 0x22 then [CHR 0x5C, CHR 0x22]
      else if c = CHR 0x08 then [CHR 0x5C, CHR ''b'']
      else if c = CHR 0x0C then [CHR 0x5C, CHR ''f'']
      else if c = CHR 0x0A then [CHR 0x5C, CHR ''n'']
      else if c = CHR 0x0D then [CHR 0x5C, CHR ''r'']
      else if c = CHR 0x09 then [CHR 0x5C, CHR ''t'']
      else [CHR 0x5C, CHR ''u'', CHR ''0'', CHR ''0'',
            hexdigit (of_char c div 16), hexdigit (of_char c mod 16)])"

definition encode_basestring_ascii :: "string \<Rightarrow> string" where
  "encode_basestring_ascii s = CHR 0x22 # concat (map escape_char s) @ [CHR 0x22]"

datatype msg = Msg (msg_role: string) (msg_text: string)

definition json_dumps :: "msg \<Rightarrow> string" where
  \<open>json_dumps m =
     ''{"role": '' @ encode_basestring_ascii (msg_role m) @
     '', "text": '' @ encode_basestring_ascii (msg_text m) @ ''}''\<close>

text \<open>
  \<open>json.loads\<close> in strict mode, on the fragment of JSON the service writes: an object
  whose values are strings, with optional white space between the tokens and a later
  duplicate key overriding an earlier one. \<open>JSONDecodeError\<close> is raised where Python
  raises it. \<open>OutsideFragment\<close> marks the inputs the model does not follow: a four-digit
  escape above U+00FF, a value that does not start with a double quote, and a text
  that does not start with a brace (there Python raises, or yields a value that is not a
  dictionary of strings).
\<close>

definition hexval :: "char \<Rightarrow> nat option" where
  "hexval c =
     (let n = (of_char c :: nat) in
      if 48 \<le> n \<and> n \<le> 57 then Some (n - 48)
      else if 97 \<le> n \<and> n \<le> 102 then Some (n - 87)
      else if 65 \<le> n \<and> n \<le> 70 then Some (n - 55)
      else None)"

definition hex4 :: "char \<Rightarrow> char \<Rightarrow> char \<Rightarrow> char \<Rightarrow> nat option" where
  "hex4 a b c d =
     (case (hexval a, hexval b, hexval c, hexval d) of
        (Some x, Some y, Some z, Some u) \<Rightarrow> Some (((x * 16 + y) * 16 + z) * 16 + u)
      | _ \<Rightarrow> None)"

definition backslash :: "char \<Rightarrow> char option" where
  "backslash e =
     (if e = CHR 0x22 then Some (CHR 0x22)
      else if e = CHR 0x5C then Some (CHR 0x5C)
      else if e = CHR ''/'' then Some (CHR ''/'')
      else if e = CHR ''b'' then Some (CHR 0x08)
      else if e = CHR ''f'' then Some (CHR 0x0C)
      else if e = CHR ''n'' then Some (CHR 0x0A)
      else if e = CHR ''r'' then Some (CHR 0x0D)
      else if e = CHR ''t'' then Some (CHR 0x09)
      else None)"

definition chunk :: "char \<Rightarrow> exn + (string \<times> string) \<Rightarrow> exn + (string \<times> string)" where
  "chunk c r = (case r of Inl e \<Rightarrow> Inl e | Inr (s, rest) \<Rightarrow> Inr (c # s, rest))"

fun scanstring :: "string \<Rightarrow> exn + (string \<times> string)" where
  "scanstring [] = Inl JSONDecodeError"
| "scanstring (c # cs) =
     (if c = CHR 0x22 then Inr ([], cs)
      else if c = CHR 0x5C then
        (case cs of
           [] \<Rightarrow> Inl JSONDecodeError
         | e # r \<Rightarrow>
             if e = CHR ''u'' then
               (case r of
                  h1 # h2 # h3 # h4 # r' \<Rightarrow>
                    (case hex4 h1 h2 h3 h4 of
                       None \<Rightarrow> Inl JSONDecodeError
                     | Some n \<Rightarrow>
                         if n < 256 then chunk (char_of n) (scanstring r')
                         else Inl OutsideFragment)
                | _ \<Rightarrow> Inl JSONDecodeError)
             else
               (case backslash e of
                  None \<Rightarrow> Inl JSONDecodeError
                | Some ch \<Rightarrow> chunk ch (scanstring r)))
      else if (of_char c :: nat) < 32 then Inl JSONDecodeError
      else chunk c (scanstring cs))"


definition is_ws :: "char \<Rightarrow> bool" where
  "is_ws c \<longleftrightarrow> c = CHR '' '' \<or> c = CHR 0x09 \<or> c = CHR 0x0A \<or> c = CHR 0x0D"

definition skip_ws :: "string \<Rightarrow> string" where
  "skip_ws = dropWhile is_ws"

lemma length_skip_ws: "length (skip_ws s) \<le> length s"
  by (simp add: skip_ws_def length_dropWhile_le)

lemma chunk_Inr: "chunk c r = Inr (v, rest) \<Longrightarrow> \<exists>v'. r = Inr (v', rest)"
  by (auto simp: chunk_def split: sum.splits)

lemma length_scanstring: "scanstring s = Inr (v, r) \<Longrightarrow> length r < length s"
proof (induction s arbitrary: v r rule: scanstring.induct)
  case 1
  then show ?case by simp
next
  case (2 c cs)
  show ?case
    using "2.prems" "2.IH"
    by (fastforce dest!: chunk_Inr split: if_splits list.splits option.splits)
qed

type_synonym pydict = "string \<Rightarrow> string option"

function parse_pairs :: "string \<Rightarrow> pydict \<Rightarrow> exn + (pydict \<times> string)" where
  "parse_pairs s d =
     (case s of
        [] \<Rightarrow> Inl JSONDecodeError
      | q # r \<Rightarrow>
          if q \<noteq> CHR 0x22 then Inl JSONDecodeError
          else
            (case scanstring r of
               Inl e \<Rightarrow> Inl e
             | Inr (k, r1) \<Rightarrow>
                 (case skip_ws r1 of
                    [] \<Rightarrow> Inl JSONDecodeError
                  | colon # r2 \<Rightarrow>
                      if colon \<noteq> CHR '':'' then Inl JSONDecodeError
                      else
                        (case skip_ws r2 of
                           [] \<Rightarrow> Inl JSONDecodeError
                         | q' # r3 \<Rightarrow>
                             if q' \<noteq> CHR 0x22 then Inl OutsideFragment
                             else
                               (case scanstring r3 of
                                  Inl e \<Rightarrow> Inl e
                                | Inr (v, r4) \<Rightarrow>
                                    (case skip_ws r4 of
                                       [] \<Rightarrow> Inl JSONDecodeError
                                     | x # r5 \<Rightarrow>
                                         if x = CHR ''}'' then Inr (d(k \<mapsto> v), r5)
                                         else if x = CHR '','' then parse_pairs (skip_ws r5) (d(k \<mapsto> v))
                                         else Inl JSONDecodeError))))))"
  by pat_completeness auto
termination
proof (relation "measure (\<lambda>(s, d). length s)", goal_cases)
  case 1
  then show ?case by simp
next
  case (2 s d q r kr k r1 colon r2 q' r3 vr v r4 x r5)
  have "length r5 < length (skip_ws r4)" using 2 by simp
  also have "\<dots> \<le> length r4" by (rule length_skip_ws)
  also have "\<dots> < length r3" using 2 length_scanstring by metis
  also have "\<dots> < length (skip_ws r2)" using 2 by simp
  also have "\<dots> \<le> length r2" by (rule length_skip_ws)
  also have "\<dots> < length (skip_ws r1)" using 2 by simp
  also have "\<dots> \<le> length r1" by (rule length_skip_ws)
  also have "\<dots> < length r" using 2 length_scanstring by metis
  also have "\<dots> < length s" using 2 by simp
  finally have "length r5 < length s" .
  moreover have "length (skip_ws r5) \<le> length r5" by (rule length_skip_ws)
  ultimately show ?case by simp
qed

definition parse_object :: "string \<Rightarrow> exn + (pydict \<times> string)" where
  "parse_object s =
     (case s of
        [] \<Rightarrow> Inl JSONDecodeError
      | b # r \<Rightarrow>
          if b \<noteq> CHR ''{'' then Inl OutsideFragment
          else
            (case skip_ws r of
               [] \<Rightarrow> Inl JSONDecodeError
             | x # r' \<Rightarrow>
                 if x = CHR ''}'' then Inr (Map.empty, r')
                 else parse_pairs (x # r') Map.empty))"

definition json_loads :: "string \<Rightarrow> exn + pydict" where
  "json_loads s =
     (case parse_object (skip_ws s) of
        Inl e \<Rightarrow> Inl e
      | Inr (d, r) \<Rightarrow> if skip_ws r = [] then Inr d else Inl JSONDecodeError)"

definition getitem :: "pydict \<Rightarrow> string \<Rightarrow> exn + string" where
  "getitem d k = (case d k of None \<Rightarrow> Inl (KeyError k) | Some v \<Rightarrow> Inr v)"


section \<open>\<open>ChatServiceProvider\<close> (services/ai\_chat.py)\<close>

text \<open>
  The two collaborators that are not code of the service are parameters: the language
  model (\<open>Inl msg\<close> when the call raises, \<open>Inr content\<close> otherwise) and Python's
  \<open>str\<close> on an exception.
\<close>

record env =
  llm_invoke :: "string \<Rightarrow> string + string"
  exc_str :: "exn \<Rightarrow> string"

definition invoke :: "env \<Rightarrow> string \<Rightarrow> world \<Rightarrow> (exn + string) \<times> world" where
  "invoke env prompt w =
     (case llm_invoke env prompt of
        Inl m \<Rightarrow> (Inl (LLMError m), w\<lparr>prompts := prompts w @ [prompt]\<rparr>)
      | Inr content \<Rightarrow> (Inr content, w\<lparr>prompts := prompts w @ [prompt]\<rparr>))"

definition system_prompt_key :: "string \<Rightarrow> string" where
  "system_prompt_key client_id = ''system_prompt'' @ '':'' @ client_id"

definition set_system_prompt :: "string \<Rightarrow> string \<Rightarrow> world \<Rightarrow> bool \<times> world" where
  "set_system_prompt client_id prompt w =
     (case set_value (system_prompt_key client_id) prompt w of
        (Inl e, w') \<Rightarrow> (False, w')
      | (Inr r, w') \<Rightarrow> (True, w'))"

definition get_system_prompt :: "string \<Rightarrow> world \<Rightarrow> (exn + string option) \<times> world" where
  "get_system_prompt client_id = get_value (system_prompt_key client_id)"

definition chat_id :: "string \<Rightarrow> string \<Rightarrow> string" where
  "chat_id user_id client_id = user_id @ '':'' @ client_id"

text \<open>One line of the formatted history: the record is parsed once for each field.\<close>

definition format_message :: "string \<Rightarrow> exn + string" where
  "format_message m =
     (case json_loads m of
        Inl e \<Rightarrow> Inl e
      | Inr d \<Rightarrow>
          (case getitem d ''role'' of
             Inl e \<Rightarrow> Inl e
           | Inr r \<Rightarrow>
               (case json_loads m of
                  Inl e \<Rightarrow> Inl e
                | Inr d' \<Rightarrow>
                    (case getitem d' ''text'' of
                       Inl e \<Rightarrow> Inl e
                     | Inr t \<Rightarrow> Inr (r @ '': '' @ t)))))"

text \<open>The generator over the history: the first record that fails raises.\<close>

fun format_messages :: "string list \<Rightarrow> exn + string list" where
  "format_messages [] = Inr []"
| "format_messages (m # ms) =
     (case format_message m of
        Inl e \<Rightarrow> Inl e
      | Inr l \<Rightarrow>
          (case format_messages ms of
             Inl e \<Rightarrow> Inl e
           | Inr ls \<Rightarrow> Inr (l # ls)))"

fun join :: "string \<Rightarrow> string list \<Rightarrow> string" where
  "join sep [] = []"
| "join sep [x] = x"
| "join sep (x # y # ys) = x @ sep @ join sep (y # ys)"

text \<open>
  The assembly of the prompt (lines 53 to 61 of \<open>chat\<close>). \<open>system_msg\<close> is the
  dictionary of the system message; \<open>None\<close> stands for a value that the test
  \<open>if system_msg\<close> takes as false.
\<close>

definition assemble :: "msg option \<Rightarrow> string list \<Rightarrow> string \<Rightarrow> exn + string" where
  "assemble system_msg history query =
     (let formatted_history =
            (case system_msg of
               Some m \<Rightarrow> ''system: '' @ msg_text m @ ''\<newline>''
             | None \<Rightarrow> [])
      in case format_messages history of
           Inl e \<Rightarrow> Inl e
         | Inr ls \<Rightarrow>
             Inr ((formatted_history @ join ''\<newline>'' ls) @ ''\<newline>user: '' @ query))"


definition unregistered :: exn where
  "unregistered = HTTPException 403 ''Client not registered or unauthorized.''"

text \<open>
  The body of the \<open>try\<close> block of \<open>chat\<close>. The test \<open>if system_prompt\<close> is Python's
  truth value of an optional string: false for \<open>None\<close> and for the empty string.
\<close>

definition chat_try :: "env \<Rightarrow> string \<Rightarrow> string \<Rightarrow> string \<Rightarrow> world \<Rightarrow> (exn + string) \<times> world" where
  "chat_try env user_id client_id query w =
     (case get_system_prompt client_id w of
        (Inl e, w1) \<Rightarrow> (Inl e, w1)
      | (Inr system_prompt, w1) \<Rightarrow>
          (case system_prompt of
             None \<Rightarrow> (Inl unregistered, w1)
           | Some p \<Rightarrow>
               if p = [] then (Inl unregistered, w1)
               else
                 (case store_message (chat_id user_id client_id)
                         (json_dumps (Msg ''user'' query)) w1 of
                    (Inl e, w2) \<Rightarrow> (Inl e, w2)
                  | (Inr u, w2) \<Rightarrow>
                      (case get_messages (chat_id user_id client_id) w2 of
                         (Inl e, w3) \<Rightarrow> (Inl e, w3)
                       | (Inr history, w3) \<Rightarrow>
                           (case assemble (Some (Msg ''system'' p)) history query of
                              Inl e \<Rightarrow> (Inl e, w3)
                            | Inr prompt \<Rightarrow>
                                (case invoke env prompt w3 of
                                   (Inl e, w4) \<Rightarrow> (Inl e, w4)
                                 | (Inr reply, w4) \<Rightarrow>
                                     (case store_message (chat_id user_id client_id)
                                             (json_dumps (Msg ''assistant'' reply)) w4 of
                                        (Inl e, w5) \<Rightarrow> (Inl e, w5)
                                      | (Inr u', w5) \<Rightarrow> (Inr reply, w5))))))))"

text \<open>\<open>chat\<close>: the \<open>except Exception\<close> clause turns every exception into a string.\<close>

definition chat :: "env \<Rightarrow> string \<Rightarrow> string \<Rightarrow> string \<Rightarrow> world \<Rightarrow> string \<times> world" where
  "chat env user_id client_id query w =
     (case chat_try env user_id client_id query w of
        (Inl e, w') \<Rightarrow> (''Error occurred: '' @ exc_str env e, w')
      | (Inr reply, w') \<Rightarrow> (reply, w'))"


section \<open>Vocabulary of the statements\<close>

text \<open>
  \<open>answers n w\<close>: the server answers the next \<open>n\<close> commands. \<open>fresh\<close> is an empty
  database with a server that always answers. \<open>json_err\<close> collects what the decoder
  raises.
\<close>

definition answers :: "nat \<Rightarrow> world \<Rightarrow> bool" where
  "answers n w \<longleftrightarrow> (\<forall>f \<in> set (take n (faults w)). f = None)"

definition fresh :: world where
  "fresh = \<lparr>db = Map.empty, faults = [], prompts = []\<rparr>"

text \<open>
  Python's \<open>str\<close> on the exceptions of the examples. An \<open>HTTPException\<close> prints as
  its status code in decimal, a colon, a space and its detail (Starlette's \<open>__str__\<close>); a
  \<open>KeyError\<close> prints as the \<open>repr\<close> of its key, which for the keys \<open>role\<close> and
  \<open>text\<close> is the key between single quotes; the errors of the Redis client and of the
  language-model client print as their message. The text of a \<open>JSONDecodeError\<close>
  names the fault and its position in the document, which the decoder of this model does
  not record: \<open>py_str\<close> gives the empty text for it, and no statement below depends
  on that.
\<close>

fun decimal :: "nat \<Rightarrow> string" where
  "decimal n =
     (if n < 10 then [char_of (48 + n)]
      else decimal (n div 10) @ [char_of (48 + n mod 10)])"

declare decimal.simps [simp del]

definition py_str :: "exn \<Rightarrow> string" where
  "py_str e =
     (case e of
        HTTPException status_code detail \<Rightarrow> decimal status_code @ '': '' @ detail
      | RedisError m \<Rightarrow> m
      | KeyError k \<Rightarrow> [CHR 0x27] @ k @ [CHR 0x27]
      | LLMError m \<Rightarrow> m
      | JSONDecodeError \<Rightarrow> []
      | OutsideFragment \<Rightarrow> [])"

text \<open>
  \<open>scenario_env reply\<close> is a language model that answers every prompt with
  \<open>reply\<close>, together with \<open>py_str\<close>.
\<close>

definition scenario_env :: "string \<Rightarrow> env" where
  "scenario_env reply = \<lparr>llm_invoke = (\<lambda>prompt. Inr reply), exc_str = py_str\<rparr>"

text \<open>
  Worlds and environments of the examples: \<open>registered\<close> holds the prompt of client 15
  and nothing else; in \<open>append_fails\<close> the store answers three commands and fails on the
  fourth; \<open>failing_env\<close> is a language model whose call raises.
\<close>

definition registered :: world where
  "registered = fresh\<lparr>db := Map.empty(system_prompt_key ''15'' \<mapsto> RString ''You are helpful.'')\<rparr>"

definition append_fails :: world where
  "append_fails = registered\<lparr>faults := [None, None, None, Some ''connection lost'']\<rparr>"

definition failing_env :: env where
  "failing_env = (scenario_env ''4'')\<lparr>llm_invoke := (\<lambda>prompt. Inl ''rate limit'')\<rparr>"

definition json_err :: "exn \<Rightarrow> bool" where
  "json_err e \<longleftrightarrow> e = JSONDecodeError \<or> e = OutsideFragment"


section \<open>Decoding what \<open>json.dumps\<close> wrote\<close>

lemma decimal_403: "decimal 403 = ''403''"
  by code_simp

lemma hexval_hexdigit_all: "\<forall>n\<in>{..<16}. hexval (hexdigit n) = Some n"
  by code_simp

lemma hexval_hexdigit: "n < 16 \<Longrightarrow> hexval (hexdigit n) = Some n"
  using hexval_hexdigit_all by auto

lemma hexval_0: "hexval (CHR ''0'') = Some 0"
  by (simp add: hexval_def)

lemma hex4_byte:
  assumes "n < 256"
  shows "hex4 (CHR ''0'') (CHR ''0'') (hexdigit (n div 16)) (hexdigit (n mod 16)) = Some n"
proof -
  have "n div 16 < 16" using assms by simp
  moreover have "n mod 16 < 16" by simp
  ultimately show ?thesis
    by (simp add: hex4_def hexval_0 hexval_hexdigit)
qed

lemma of_char_less_256: "(of_char c :: nat) < 256"
  by (cases c) simp

lemma scanstring_escape_char: "scanstring (escape_char c @ s) = chunk c (scanstring s)"
proof -
  let ?n = "of_char c :: nat"
  have n: "?n < 256" by (rule of_char_less_256)
  have cb: "char_of ?n = c" by simp
  show ?thesis
    by (simp add: escape_char_def backslash_def hex4_byte[OF n] n cb)
qed

lemma scanstring_escaped:
  "scanstring (concat (map escape_char t) @ CHR 0x22 # rest) = Inr (t, rest)"
  by (induction t) (simp_all add: scanstring_escape_char chunk_def)

lemma scanstring_encoded:
  "scanstring (tl (encode_basestring_ascii t) @ rest) = Inr (t, rest)"
  using scanstring_escaped [of t rest] by (simp add: encode_basestring_ascii_def)

lemma encode_basestring_ascii_Cons:
  "encode_basestring_ascii t = CHR 0x22 # tl (encode_basestring_ascii t)"
  by (simp add: encode_basestring_ascii_def)

declare parse_pairs.simps [simp del]

lemma parse_pairs_dumps:
  \<open>parse_pairs (''"role": '' @ encode_basestring_ascii r @ '', "text": '' @
       encode_basestring_ascii t @ ''}'') d
     = Inr (d(''role'' \<mapsto> r, ''text'' \<mapsto> t), [])\<close>
proof -
  have key_role: \<open>scanstring (''role": '' @ s) = Inr (''role'', '': '' @ s)\<close> for s
    by (simp add: chunk_def)
  have key_text: \<open>scanstring (''text": '' @ s) = Inr (''text'', '': '' @ s)\<close> for s
    by (simp add: chunk_def)
  have second:
    \<open>parse_pairs (''"text": '' @ encode_basestring_ascii t @ ''}'') d'
       = Inr (d'(''text'' \<mapsto> t), [])\<close> for d'
    apply (subst parse_pairs.simps)
    apply (subst encode_basestring_ascii_Cons)
    using key_text [of "CHR 0x22 # tl (encode_basestring_ascii t) @ ''}''"]
      scanstring_encoded [of t "''}''"]
    apply (simp add: skip_ws_def is_ws_def)
    done
  show ?thesis
    apply (subst parse_pairs.simps)
    apply (subst encode_basestring_ascii_Cons)
    using key_role [of "CHR 0x22 # tl (encode_basestring_ascii r) @ '', '' @ CHR 0x22 # ''text'' @ CHR 0x22 # '': '' @ encode_basestring_ascii t @ ''}''"]
      scanstring_encoded [of r "'', '' @ CHR 0x22 # ''text'' @ CHR 0x22 # '': '' @ encode_basestring_ascii t @ ''}''"]
      second [of "d(''role'' \<mapsto> r)"]
    apply (simp add: skip_ws_def is_ws_def)
    done
qed

lemma json_loads_dumps:
  "json_loads (json_dumps (Msg r t)) = Inr (Map.empty(''role'' \<mapsto> r, ''text'' \<mapsto> t))"
  using parse_pairs_dumps [of r t Map.empty]
  by (simp add: json_loads_def json_dumps_def parse_object_def skip_ws_def is_ws_def)

lemma format_message_dumps:
  "format_message (json_dumps (Msg r t)) = Inr (r @ '': '' @ t)"
  by (simp add: format_message_def json_loads_dumps getitem_def)

lemma format_messages_snoc:
  "format_messages (ms @ [m]) =
     (case format_messages ms of
        Inl e \<Rightarrow> Inl e
      | Inr ls \<Rightarrow> (case format_message m of Inl e \<Rightarrow> Inl e | Inr l \<Rightarrow> Inr (ls @ [l])))"
  by (induction ms) (auto split: sum.splits)

lemma join_snoc: "ls \<noteq> [] \<Longrightarrow> join sep (ls @ [x]) = join sep ls @ sep @ x"
  by (induction sep ls rule: join.induct) auto

text \<open>
  C8. A message record survives the store: parsing what \<open>json.dumps\<close> wrote for a
  dictionary with role \<open>r\<close> and text \<open>t\<close> yields a dictionary with exactly these two
  entries, so the two field reads of the history formatter give back \<open>r\<close> and \<open>t\<close>; in
  particular for role \<open>assistant\<close> and text \<open>x\<close>.
\<close>

theorem turn_roundtrip:
  "(\<exists>d. json_loads (json_dumps (Msg r t)) = Inr d
        \<and> getitem d ''role'' = Inr r \<and> getitem d ''text'' = Inr t
        \<and> dom d = {''role'', ''text''})
   \<and> (\<exists>d. json_loads (json_dumps (Msg ''assistant'' ''x'')) = Inr d
        \<and> Msg (case_sum (\<lambda>e. []) id (getitem d ''role'')) (case_sum (\<lambda>e. []) id (getitem d ''text''))
          = Msg ''assistant'' ''x'')"
  by (auto simp: json_loads_dumps getitem_def)

section \<open>The session key\<close>

text \<open>
  C10. The session key is not injective: the pairs (\<open>a:b\<close>, \<open>c\<close>) and (\<open>a\<close>, \<open>b:c\<close>) differ
  and have the same key, so they append to and read the same Redis list.
\<close>

theorem chat_id_not_injective:
  "(''a:b'', ''c'') \<noteq> (''a'', ''b:c'')
   \<and> chat_id ''a:b'' ''c'' = chat_id ''a'' ''b:c''
   \<and> chat_key (chat_id ''a:b'' ''c'') = chat_key (chat_id ''a'' ''b:c'')
   \<and> store_message (chat_id ''a:b'' ''c'') m w = store_message (chat_id ''a'' ''b:c'') m w
   \<and> get_messages (chat_id ''a:b'' ''c'') w = get_messages (chat_id ''a'' ''b:c'') w
   \<and> \<not> inj (\<lambda>(user_id, client_id). chat_id user_id client_id)"
proof -
  have e: "chat_id ''a:b'' ''c'' = chat_id ''a'' ''b:c''"
    by (simp add: chat_id_def)
  have "\<not> inj (\<lambda>(user_id, client_id). chat_id user_id client_id)"
  proof
    assume "inj (\<lambda>(user_id, client_id). chat_id user_id client_id)"
    from injD [OF this, of "(''a:b'', ''c'')" "(''a'', ''b:c'')"] e
    show False by simp
  qed
  with e show ?thesis by simp
qed

section \<open>What the decoder raises\<close>

lemma chunk_error: "chunk c r = Inl e \<Longrightarrow> r = Inl e"
  by (auto simp: chunk_def split: sum.splits)

lemma scanstring_error:
  "scanstring s = Inl e \<Longrightarrow> e = JSONDecodeError \<or> e = OutsideFragment"
proof (induction s arbitrary: e rule: scanstring.induct)
  case 1
  then show ?case by simp
next
  case (2 c cs)
  show ?case
  proof (cases "c = CHR 0x22")
    case True
    with "2.prems" show ?thesis by simp
  next
    case nq: False
    show ?thesis
    proof (cases "c = CHR 0x5C")
      case False
      with nq "2.prems"
      have "e = JSONDecodeError \<or> (\<not> of_char c < (32::nat) \<and> scanstring cs = Inl e)"
        by (auto split: if_splits dest: chunk_error)
      with "2.IH"(3) [OF nq False] show ?thesis by blast
    next
      case bs: True
      show ?thesis
      proof (cases cs)
        case Nil
        with bs nq "2.prems" show ?thesis by simp
      next
        case (Cons x r)
        show ?thesis
        proof (cases "x = CHR ''u''")
          case False
          with Cons bs nq "2.prems"
          have "e = JSONDecodeError \<or> (\<exists>ch. backslash x = Some ch \<and> scanstring r = Inl e)"
            by (auto split: option.splits dest: chunk_error)
          with "2.IH"(2) [OF nq bs Cons False] show ?thesis by blast
        next
          case u: True
          show ?thesis
          proof (cases "\<exists>h1 h2 h3 h4 r'. r = h1 # h2 # h3 # h4 # r'")
            case False
            then have "scanstring (c # cs) = Inl JSONDecodeError"
              using u Cons bs nq by (auto split: list.splits)
            with "2.prems" show ?thesis by simp
          next
            case True
            then obtain h1 h2 h3 h4 r' where r: "r = h1 # h2 # h3 # h4 # r'" by blast
            show ?thesis
            proof (cases "hex4 h1 h2 h3 h4")
              case None
              with r u Cons bs nq "2.prems" show ?thesis by simp
            next
              case (Some n)
              show ?thesis
              proof (cases "n < 256")
                case False
                with Some r u Cons bs nq "2.prems" show ?thesis by simp
              next
                case True
                with Some r u Cons bs nq "2.prems" have "scanstring r' = Inl e"
                  by (auto dest: chunk_error)
                with "2.IH"(1) [OF nq bs Cons u r refl refl refl Some True] show ?thesis .
              qed
            qed
          qed
        qed
      qed
    qed
  qed
qed


lemma parse_pairs_Inl_cases:
  assumes "parse_pairs s d = Inl e"
  shows "json_err e \<or>
    (\<exists>r k r1 r2 r3 v r4 r5.
       s = CHR 0x22 # r \<and> scanstring r = Inr (k, r1) \<and> skip_ws r1 = CHR '':'' # r2 \<and>
       skip_ws r2 = CHR 0x22 # r3 \<and> scanstring r3 = Inr (v, r4) \<and>
       skip_ws r4 = CHR '','' # r5 \<and> parse_pairs (skip_ws r5) (d(k \<mapsto> v)) = Inl e)"
  using assms
  apply (subst (asm) parse_pairs.simps)
  apply (simp add: json_err_def split: list.splits if_splits sum.splits prod.splits)
  using scanstring_error apply blast+
  done


lemma parse_pairs_error: "parse_pairs s d = Inl e \<Longrightarrow> json_err e"
proof (induction "length s" arbitrary: s d rule: less_induct)
  case less
  from parse_pairs_Inl_cases [OF less.prems] show ?case
  proof
    assume "json_err e"
    then show ?thesis .
  next
    assume "\<exists>r k r1 r2 r3 v r4 r5.
       s = CHR 0x22 # r \<and> scanstring r = Inr (k, r1) \<and> skip_ws r1 = CHR '':'' # r2 \<and>
       skip_ws r2 = CHR 0x22 # r3 \<and> scanstring r3 = Inr (v, r4) \<and>
       skip_ws r4 = CHR '','' # r5 \<and> parse_pairs (skip_ws r5) (d(k \<mapsto> v)) = Inl e"
    then obtain r k r1 r2 r3 v r4 r5 where
      s: "s = CHR 0x22 # r" and k: "scanstring r = Inr (k, r1)" and
      c: "skip_ws r1 = CHR '':'' # r2" and q: "skip_ws r2 = CHR 0x22 # r3" and
      v: "scanstring r3 = Inr (v, r4)" and m: "skip_ws r4 = CHR '','' # r5" and
      rec: "parse_pairs (skip_ws r5) (d(k \<mapsto> v)) = Inl e"
      by blast
    have "length (skip_ws r5) \<le> length r5" by (rule length_skip_ws)
    also have "\<dots> < length (skip_ws r4)" using m by simp
    also have "\<dots> \<le> length r4" by (rule length_skip_ws)
    also have "\<dots> < length r3" using v by (rule length_scanstring)
    also have "\<dots> < length (skip_ws r2)" using q by simp
    also have "\<dots> \<le> length r2" by (rule length_skip_ws)
    also have "\<dots> < length (skip_ws r1)" using c by simp
    also have "\<dots> \<le> length r1" by (rule length_skip_ws)
    also have "\<dots> < length r" using k by (rule length_scanstring)
    also have "\<dots> < length s" using s by simp
    finally have "length (skip_ws r5) < length s" .
    then show ?thesis using rec by (rule less.hyps)
  qed
qed

lemma json_loads_error: "json_loads s = Inl e \<Longrightarrow> json_err e"
  by (auto simp: json_loads_def parse_object_def json_err_def
           split: sum.splits list.splits if_splits prod.splits
           dest: parse_pairs_error [unfolded json_err_def])

lemma format_message_error:
  "format_message m = Inl e \<Longrightarrow> json_err e \<or> (\<exists>k. e = KeyError k)"
  by (auto simp: format_message_def getitem_def
           split: sum.splits option.splits dest: json_loads_error)

lemma format_messages_error:
  "format_messages ms = Inl e \<Longrightarrow> json_err e \<or> (\<exists>k. e = KeyError k)"
  by (induction ms arbitrary: e) (auto split: sum.splits dest: format_message_error)

lemma assemble_error:
  "assemble sm h q = Inl e \<Longrightarrow> json_err e \<or> (\<exists>k. e = KeyError k)"
  by (auto simp: assemble_def split: sum.splits dest: format_messages_error)

section \<open>The store commands\<close>

lemma answers_tl: "answers (Suc n) w \<Longrightarrow> answers n (w\<lparr>faults := tl (faults w)\<rparr>)"
  by (cases "faults w") (auto simp: answers_def)

lemma redis_cmd_answers:
  "answers (Suc n) w \<Longrightarrow>
   redis_cmd f w =
     (case f (db w) of
        Inl e \<Rightarrow> (Inl e, w\<lparr>faults := tl (faults w)\<rparr>)
      | Inr (a, d) \<Rightarrow> (Inr a, w\<lparr>db := d, faults := tl (faults w)\<rparr>))"
  by (cases "faults w") (auto simp: redis_cmd_def answers_def split: option.splits)

lemma redis_cmd_fault:
  "faults w = Some m # fs \<Longrightarrow> redis_cmd f w = (Inl (RedisError m), w\<lparr>faults := fs\<rparr>)"
  by (simp add: redis_cmd_def)

lemma get_system_prompt_answers:
  "answers (Suc n) w \<Longrightarrow>
   get_system_prompt c w =
     (case db w (system_prompt_key c) of
        None \<Rightarrow> (Inr None, w\<lparr>faults := tl (faults w)\<rparr>)
      | Some (RString v) \<Rightarrow> (Inr (Some v), w\<lparr>faults := tl (faults w)\<rparr>)
      | Some (RList xs) \<Rightarrow> (Inl wrongtype, w\<lparr>faults := tl (faults w)\<rparr>))"
  by (auto simp: get_system_prompt_def get_value_def redis_cmd_answers cmd_GET_def
           split: option.splits rval.splits)

lemma set_system_prompt_True:
  "set_system_prompt c p w = (True, w1) \<Longrightarrow>
     db w1 = (db w)(system_prompt_key c \<mapsto> RString p)
     \<and> faults w1 = tl (faults w) \<and> prompts w1 = prompts w"
  by (auto simp: set_system_prompt_def set_value_def redis_cmd_def cmd_SET_def
           split: list.splits option.splits)

lemma store_message_not_unregistered:
  "store_message k m w = (Inl e, w') \<Longrightarrow> \<exists>msg. e = RedisError msg"
  by (auto simp: store_message_def redis_cmd_def cmd_RPUSH_def wrongtype_def
           split: list.splits option.splits sum.splits rval.splits prod.splits)

lemma get_messages_not_unregistered:
  "get_messages k w = (Inl e, w') \<Longrightarrow> \<exists>msg. e = RedisError msg"
  by (auto simp: get_messages_def redis_cmd_def cmd_LRANGE_all_def wrongtype_def
           split: list.splits option.splits sum.splits rval.splits)

lemma invoke_error: "invoke env p w = (Inl e, w') \<Longrightarrow> \<exists>m. e = LLMError m"
  by (auto simp: invoke_def split: sum.splits)

section \<open>The chat operation\<close>

text \<open>
  C1. For a client whose prompt key is absent, \<open>chat\<close> changes neither the database nor
  the log of prompts, whatever the store does. When the store answers the lookup, the
  \<open>try\<close> block raises the 403 exception and \<open>chat\<close> returns its text after the prefix;
  a store failure is the result only when the lookup itself fails.
\<close>

theorem unregistered_client_rejected:
  assumes "db w (system_prompt_key client_id) = None"
  shows "db (snd (chat env user_id client_id query w)) = db w
       \<and> prompts (snd (chat env user_id client_id query w)) = prompts w
       \<and> (answers 1 w \<longrightarrow>
            fst (chat_try env user_id client_id query w)
              = Inl (HTTPException 403 ''Client not registered or unauthorized.'')
          \<and> fst (chat env user_id client_id query w)
              = ''Error occurred: ''
                @ exc_str env (HTTPException 403 ''Client not registered or unauthorized.''))
       \<and> (\<forall>m. fst (chat_try env user_id client_id query w) = Inl (RedisError m) \<longleftrightarrow>
                (\<exists>fs. faults w = Some m # fs))"
proof (cases "answers 1 w")
  case True
  with assms have "chat_try env user_id client_id query w
      = (Inl unregistered, w\<lparr>faults := tl (faults w)\<rparr>)"
    by (simp add: chat_try_def get_system_prompt_answers [of 0])
  moreover from True have "\<nexists>m fs. faults w = Some m # fs"
    by (auto simp: answers_def)
  ultimately show ?thesis
    by (simp add: chat_def unregistered_def)
next
  case False
  then obtain m fs where f: "faults w = Some m # fs"
    by (cases "faults w") (auto simp: answers_def)
  then have "chat_try env user_id client_id query w = (Inl (RedisError m), w\<lparr>faults := fs\<rparr>)"
    by (simp add: chat_try_def get_system_prompt_def get_value_def redis_cmd_fault)
  with False f show ?thesis
    by (auto simp: chat_def)
qed

theorem unregistered_client_rejected_witness:
  "db fresh (system_prompt_key ''15'') = None
   \<and> answers 1 fresh
   \<and> chat (scenario_env ''4'') ''12'' ''15'' ''What is 2+2?'' fresh
       = (''Error occurred: 403: Client not registered or unauthorized.'', fresh)"
proof -
  have a: "db fresh (system_prompt_key ''15'') = None"
    by (simp add: fresh_def)
  have b: "answers 1 fresh"
    by (simp add: answers_def fresh_def)
  have c: "faults (snd (chat (scenario_env ''4'') ''12'' ''15'' ''What is 2+2?'' fresh)) = []"
    using b by (simp add: chat_def chat_try_def get_system_prompt_answers [of 0] fresh_def)
  from unregistered_client_rejected [OF a, of "scenario_env ''4''" "''12''" "''What is 2+2?''"] b c
  have "chat (scenario_env ''4'') ''12'' ''15'' ''What is 2+2?'' fresh
       = (''Error occurred: 403: Client not registered or unauthorized.'', fresh)"
    by (cases "chat (scenario_env ''4'') ''12'' ''15'' ''What is 2+2?'' fresh")
       (simp add: scenario_env_def py_str_def decimal_403 fresh_def)
  with a b show ?thesis by simp
qed

lemma chat_try_prompt_not_unregistered:
  assumes "get_system_prompt c w = (Inr (Some p), w1)" "p \<noteq> []"
  shows "fst (chat_try env u c q w) \<noteq> Inl (HTTPException code detail)"
  using assms
  by (auto simp: chat_try_def json_err_def
           split: prod.splits sum.splits
           dest!: store_message_not_unregistered get_messages_not_unregistered
                  assemble_error invoke_error)

text \<open>
  C2, as the specification states it, fails: the empty prompt is stored and read back as
  the empty string, but the test on the prompt in \<open>chat\<close> is Python's truth value, which
  is false for the empty string, so the call is rejected like one of an unregistered
  client.
\<close>

theorem empty_prompt_counterexample:
  "fst (set_system_prompt ''15'' [] fresh) = True
   \<and> fst (get_system_prompt ''15'' (snd (set_system_prompt ''15'' [] fresh))) = Inr (Some [])
   \<and> fst (chat_try (scenario_env ''4'') ''12'' ''15'' ''hi''
            (snd (set_system_prompt ''15'' [] fresh)))
       = Inl (HTTPException 403 ''Client not registered or unauthorized.'')
   \<and> fst (chat (scenario_env ''4'') ''12'' ''15'' ''hi''
            (snd (set_system_prompt ''15'' [] fresh)))
       = ''Error occurred: 403: Client not registered or unauthorized.''"
  by (simp add: set_system_prompt_def set_value_def redis_cmd_def cmd_SET_def fresh_def
        get_system_prompt_def get_value_def cmd_GET_def chat_def chat_try_def unregistered_def
        scenario_env_def py_str_def decimal_403)

text \<open>
  C2, amended. After \<open>set_system_prompt\<close> succeeded with text \<open>p\<close> and while the store
  answers, \<open>get_system_prompt\<close> returns \<open>p\<close> (the empty string too, which differs from
  an absent prompt), and the following \<open>chat\<close> raises the 403 rejection exactly when
  \<open>p\<close> is empty.
\<close>

theorem empty_prompt_rejected:
  assumes "set_system_prompt client_id p w = (True, w1)" and "answers 1 w1"
  shows "fst (get_system_prompt client_id w1) = Inr (Some p)
       \<and> (fst (chat_try env user_id client_id query w1)
            = Inl (HTTPException 403 ''Client not registered or unauthorized.'')
          \<longleftrightarrow> p = [])"
proof -
  from assms(1) have "db w1 (system_prompt_key client_id) = Some (RString p)"
    by (simp add: set_system_prompt_True)
  with assms(2) have g: "get_system_prompt client_id w1 = (Inr (Some p), w1\<lparr>faults := tl (faults w1)\<rparr>)"
    by (simp add: get_system_prompt_answers [of 0])
  show ?thesis
  proof (cases "p = []")
    case True
    with g show ?thesis by (simp add: chat_try_def unregistered_def)
  next
    case False
    with g chat_try_prompt_not_unregistered [OF g False] show ?thesis by simp
  qed
qed

theorem empty_prompt_rejected_witness:
  "set_system_prompt ''15'' ''You are helpful.'' fresh
     = (True, fresh\<lparr>db := Map.empty(system_prompt_key ''15'' \<mapsto> RString ''You are helpful.'')\<rparr>)
   \<and> answers 1 (fresh\<lparr>db := Map.empty(system_prompt_key ''15'' \<mapsto> RString ''You are helpful.'')\<rparr>)
   \<and> fst (get_system_prompt ''15''
            (fresh\<lparr>db := Map.empty(system_prompt_key ''15'' \<mapsto> RString ''You are helpful.'')\<rparr>))
       = Inr (Some ''You are helpful.'')
   \<and> fst (chat_try (scenario_env ''4'') ''12'' ''15'' ''hi''
            (fresh\<lparr>db := Map.empty(system_prompt_key ''15'' \<mapsto> RString ''You are helpful.'')\<rparr>))
       \<noteq> Inl (HTTPException 403 ''Client not registered or unauthorized.'')"
proof -
  let ?w1 = "fresh\<lparr>db := Map.empty(system_prompt_key ''15'' \<mapsto> RString ''You are helpful.'')\<rparr>"
  have s: "set_system_prompt ''15'' ''You are helpful.'' fresh = (True, ?w1)"
    by (simp add: set_system_prompt_def set_value_def redis_cmd_def cmd_SET_def fresh_def)
  have a: "answers 1 ?w1"
    by (simp add: answers_def fresh_def)
  from empty_prompt_rejected [OF s a, of "scenario_env ''4''" "''12''" "''hi''"] s a
  show ?thesis by simp
qed

section \<open>The steps of a chat call\<close>

lemma store_message_Inr:
  assumes "store_message k m w = (Inr x, w')"
  shows "\<exists>old. cmd_LRANGE_all (chat_key k) (db w) = Inr (old, db w)
           \<and> w' = w\<lparr>db := (db w)(chat_key k \<mapsto> RList (old @ [m])), faults := tl (faults w)\<rparr>"
  using assms
  by (auto simp: store_message_def redis_cmd_def cmd_RPUSH_def cmd_LRANGE_all_def
           split: list.splits option.splits sum.splits rval.splits prod.splits)

lemma get_messages_Inr:
  assumes "get_messages k w = (Inr h, w')"
  shows "cmd_LRANGE_all (chat_key k) (db w) = Inr (h, db w) \<and> w' = w\<lparr>faults := tl (faults w)\<rparr>"
  using assms
  by (auto simp: get_messages_def redis_cmd_def cmd_LRANGE_all_def
           split: list.splits option.splits sum.splits rval.splits)

lemma get_system_prompt_Inr:
  assumes "get_system_prompt c w = (Inr r, w')"
  shows "w' = w\<lparr>faults := tl (faults w)\<rparr>"
  using assms
  by (auto simp: get_system_prompt_def get_value_def redis_cmd_def cmd_GET_def
           split: list.splits option.splits sum.splits rval.splits)

lemma invoke_Inr:
  assumes "invoke env prompt w = (Inr reply, w')"
  shows "llm_invoke env prompt = Inr reply \<and> w' = w\<lparr>prompts := prompts w @ [prompt]\<rparr>"
  using assms by (auto simp: invoke_def split: sum.splits)

lemma LRANGE_after_RPUSH:
  "cmd_LRANGE_all key (d(key \<mapsto> RList xs)) = Inr (h, d') \<longleftrightarrow> h = xs \<and> d' = d(key \<mapsto> RList xs)"
  by (auto simp: cmd_LRANGE_all_def)

lemma assemble_after_append:
  assumes "assemble (Some (Msg ''system'' p)) (old @ [json_dumps (Msg ''user'' q)]) q = Inr prompt"
  shows "\<exists>ls. format_messages old = Inr ls
           \<and> prompt = join ''\<newline>'' ((''system: '' @ p) # ls @ [''user: '' @ q, ''user: '' @ q])"
proof -
  from assms obtain ls where ls: "format_messages old = Inr ls"
    and p: "prompt = (''system: '' @ p @ ''\<newline>'') @ join ''\<newline>'' (ls @ [''user: '' @ q]) @ ''\<newline>user: '' @ q"
    by (auto simp: assemble_def format_messages_snoc format_message_dumps split: sum.splits)
  have "join ''\<newline>'' ((''system: '' @ p) # (ls @ [''user: '' @ q]) @ [''user: '' @ q])
      = (''system: '' @ p) @ ''\<newline>'' @ join ''\<newline>'' ((ls @ [''user: '' @ q]) @ [''user: '' @ q])"
    by (cases ls) simp_all
  also have "join ''\<newline>'' ((ls @ [''user: '' @ q]) @ [''user: '' @ q])
      = join ''\<newline>'' (ls @ [''user: '' @ q]) @ ''\<newline>'' @ ''user: '' @ q"
    by (rule join_snoc) simp
  finally show ?thesis using ls p by simp
qed

lemma chat_try_Inr:
  assumes "chat_try env u c q w = (Inr reply, w')"
  shows "\<exists>p old prompt.
      get_system_prompt c w = (Inr (Some p), w\<lparr>faults := tl (faults w)\<rparr>) \<and> p \<noteq> []
    \<and> cmd_LRANGE_all (chat_key (chat_id u c)) (db w) = Inr (old, db w)
    \<and> assemble (Some (Msg ''system'' p)) (old @ [json_dumps (Msg ''user'' q)]) q = Inr prompt
    \<and> llm_invoke env prompt = Inr reply
    \<and> w' = w\<lparr>db := (db w)(chat_key (chat_id u c) \<mapsto>
                  RList (old @ [json_dumps (Msg ''user'' q), json_dumps (Msg ''assistant'' reply)])),
              faults := tl (tl (tl (tl (faults w)))),
              prompts := prompts w @ [prompt]\<rparr>"
proof -
  from assms obtain p w1 x w2 h w3 prompt w4 y where
    g: "get_system_prompt c w = (Inr (Some p), w1)" and p: "p \<noteq> []" and
    s1: "store_message (chat_id u c) (json_dumps (Msg ''user'' q)) w1 = (Inr x, w2)" and
    m: "get_messages (chat_id u c) w2 = (Inr h, w3)" and
    a: "assemble (Some (Msg ''system'' p)) h q = Inr prompt" and
    i: "invoke env prompt w3 = (Inr reply, w4)" and
    s2: "store_message (chat_id u c) (json_dumps (Msg ''assistant'' reply)) w4 = (Inr y, w')"
    by (auto simp: chat_try_def split: prod.splits sum.splits option.splits if_splits)
  from get_system_prompt_Inr [OF g] have w1: "w1 = w\<lparr>faults := tl (faults w)\<rparr>" .
  from store_message_Inr [OF s1] w1 obtain old where
    old: "cmd_LRANGE_all (chat_key (chat_id u c)) (db w) = Inr (old, db w)" and
    w2: "w2 = w\<lparr>db := (db w)(chat_key (chat_id u c) \<mapsto> RList (old @ [json_dumps (Msg ''user'' q)])),
                faults := tl (tl (faults w))\<rparr>"
    by auto
  from get_messages_Inr [OF m] w2 have
    h: "h = old @ [json_dumps (Msg ''user'' q)]" and
    w3: "w3 = w2\<lparr>faults := tl (tl (tl (faults w)))\<rparr>"
    by (auto simp: LRANGE_after_RPUSH)
  from invoke_Inr [OF i] have
    l: "llm_invoke env prompt = Inr reply" and w4: "w4 = w3\<lparr>prompts := prompts w3 @ [prompt]\<rparr>"
    by auto
  from store_message_Inr [OF s2] w4 w3 w2 have
    "w' = w\<lparr>db := (db w)(chat_key (chat_id u c) \<mapsto>
                  RList (old @ [json_dumps (Msg ''user'' q), json_dumps (Msg ''assistant'' reply)])),
              faults := tl (tl (tl (tl (faults w)))),
              prompts := prompts w @ [prompt]\<rparr>"
    by (auto simp: LRANGE_after_RPUSH)
  with g w1 p old a h l show ?thesis by auto
qed


lemma store_message_answers:
  assumes "answers (Suc n) w" "cmd_LRANGE_all (chat_key k) (db w) = Inr (old, db w)"
  shows "store_message k m w
       = (Inr (), w\<lparr>db := (db w)(chat_key k \<mapsto> RList (old @ [m])), faults := tl (faults w)\<rparr>)"
  using assms
  by (auto simp: store_message_def redis_cmd_answers cmd_RPUSH_def cmd_LRANGE_all_def
           split: option.splits rval.splits)

lemma get_messages_answers:
  assumes "answers (Suc n) w" "cmd_LRANGE_all (chat_key k) (db w) = Inr (h, db w)"
  shows "get_messages k w = (Inr h, w\<lparr>faults := tl (faults w)\<rparr>)"
  using assms by (simp add: get_messages_def redis_cmd_answers)

lemma store_message_fault:
  "faults w = Some m # fs \<Longrightarrow> store_message k x w = (Inl (RedisError m), w\<lparr>faults := fs\<rparr>)"
  by (simp add: store_message_def redis_cmd_fault)

lemma chat_try_steps:
  assumes "answers 3 w"
    and "db w (system_prompt_key c) = Some (RString p)" and "p \<noteq> []"
    and "cmd_LRANGE_all (chat_key (chat_id u c)) (db w) = Inr (old, db w)"
  shows "chat_try env u c q w =
    (case assemble (Some (Msg ''system'' p)) (old @ [json_dumps (Msg ''user'' q)]) q of
       Inl e \<Rightarrow>
         (Inl e, w\<lparr>db := (db w)(chat_key (chat_id u c) \<mapsto> RList (old @ [json_dumps (Msg ''user'' q)])),
                   faults := tl (tl (tl (faults w)))\<rparr>)
     | Inr prompt \<Rightarrow>
         (case llm_invoke env prompt of
            Inl m \<Rightarrow>
              (Inl (LLMError m),
               w\<lparr>db := (db w)(chat_key (chat_id u c) \<mapsto> RList (old @ [json_dumps (Msg ''user'' q)])),
                 faults := tl (tl (tl (faults w))), prompts := prompts w @ [prompt]\<rparr>)
          | Inr reply \<Rightarrow>
              (case store_message (chat_id u c) (json_dumps (Msg ''assistant'' reply))
                      (w\<lparr>db := (db w)(chat_key (chat_id u c) \<mapsto> RList (old @ [json_dumps (Msg ''user'' q)])),
                         faults := tl (tl (tl (faults w))), prompts := prompts w @ [prompt]\<rparr>) of
                 (Inl e, w5) \<Rightarrow> (Inl e, w5)
               | (Inr x, w5) \<Rightarrow> (Inr reply, w5))))"
proof -
  let ?w1 = "w\<lparr>faults := tl (faults w)\<rparr>"
  let ?d = "(db w)(chat_key (chat_id u c) \<mapsto> RList (old @ [json_dumps (Msg ''user'' q)]))"
  let ?w2 = "w\<lparr>db := ?d, faults := tl (tl (faults w))\<rparr>"
  from assms(1) have a3: "answers (Suc (Suc (Suc 0))) w" by (simp add: numeral_3_eq_3)
  then have a2: "answers (Suc (Suc 0)) ?w1" by (rule answers_tl)
  from answers_tl [OF a2] have a1: "answers (Suc 0) ?w2" by (simp add: answers_def)
  have g: "get_system_prompt c w = (Inr (Some p), ?w1)"
    using a3 assms(2) by (simp add: get_system_prompt_answers)
  have s: "store_message (chat_id u c) (json_dumps (Msg ''user'' q)) ?w1 = (Inr (), ?w2)"
    using store_message_answers [OF a2, of "chat_id u c" old] assms(4) by simp
  have m: "get_messages (chat_id u c) ?w2
         = (Inr (old @ [json_dumps (Msg ''user'' q)]), ?w2\<lparr>faults := tl (tl (tl (faults w)))\<rparr>)"
    using get_messages_answers [OF a1, of "chat_id u c" "old @ [json_dumps (Msg ''user'' q)]"]
    by (simp add: cmd_LRANGE_all_def)
  show ?thesis
    by (simp add: chat_try_def g s m assms(3) invoke_def split: sum.splits)
qed

section \<open>Properties of the chat operation\<close>

text \<open>
  C6. Whenever the \<open>try\<close> block returns a reply, the text that was sent to the model is
  the newline-join of the system line, the lines of the earlier history, the history line
  of the user message just appended and the trailing user line: the query stands in it
  twice, as its last two lines.
\<close>

theorem prompt_contains_query_twice:
  assumes "chat_try env user_id client_id query w = (Inr reply, w')"
  shows "\<exists>p ls. prompts w'
           = prompts w @ [join ''\<newline>'' ((''system: '' @ p) # ls @ [''user: '' @ query, ''user: '' @ query])]
         \<and> llm_invoke env
             (join ''\<newline>'' ((''system: '' @ p) # ls @ [''user: '' @ query, ''user: '' @ query]))
           = Inr reply"
proof -
  from chat_try_Inr [OF assms] obtain p old prompt where
    a: "assemble (Some (Msg ''system'' p)) (old @ [json_dumps (Msg ''user'' query)]) query = Inr prompt"
    and l: "llm_invoke env prompt = Inr reply" and w': "prompts w' = prompts w @ [prompt]"
    by auto
  from assemble_after_append [OF a] l w' show ?thesis by auto
qed

lemma registered_run:
  "chat_try (scenario_env r) ''12'' ''15'' ''What is 2+2?'' registered =
     (Inr r,
      registered\<lparr>db := (db registered)(chat_key (chat_id ''12'' ''15'') \<mapsto>
                    RList [json_dumps (Msg ''user'' ''What is 2+2?''), json_dumps (Msg ''assistant'' r)]),
                 prompts := [''system: You are helpful.\<newline>user: What is 2+2?\<newline>user: What is 2+2?'']\<rparr>)"
proof -
  have a: "answers 3 registered" by (simp add: answers_def registered_def fresh_def)
  have p: "db registered (system_prompt_key ''15'') = Some (RString ''You are helpful.'')"
    by (simp add: registered_def)
  have o: "cmd_LRANGE_all (chat_key (chat_id ''12'' ''15'')) (db registered) = Inr ([], db registered)"
    by (simp add: cmd_LRANGE_all_def registered_def fresh_def system_prompt_key_def chat_key_def)
  have asm: "assemble (Some (Msg ''system'' ''You are helpful.'')) [json_dumps (Msg ''user'' ''What is 2+2?'')] ''What is 2+2?''
      = Inr ''system: You are helpful.\<newline>user: What is 2+2?\<newline>user: What is 2+2?''"
    by (simp add: assemble_def format_message_dumps)
  show ?thesis
    using chat_try_steps [OF a p _ o, of "scenario_env r" "''What is 2+2?''"] asm
    by (simp add: scenario_env_def py_str_def decimal_403 store_message_def redis_cmd_def cmd_RPUSH_def registered_def fresh_def)
qed

theorem prompt_contains_query_twice_witness:
  "chat_try (scenario_env ''4'') ''12'' ''15'' ''What is 2+2?'' registered
     = (Inr ''4'', snd (chat_try (scenario_env ''4'') ''12'' ''15'' ''What is 2+2?'' registered))
   \<and> prompts (snd (chat_try (scenario_env ''4'') ''12'' ''15'' ''What is 2+2?'' registered))
     = [''system: You are helpful.\<newline>user: What is 2+2?\<newline>user: What is 2+2?'']"
proof -
  have r: "chat_try (scenario_env ''4'') ''12'' ''15'' ''What is 2+2?'' registered
     = (Inr ''4'', snd (chat_try (scenario_env ''4'') ''12'' ''15'' ''What is 2+2?'' registered))"
    by (simp add: registered_run)
  from prompt_contains_query_twice [OF r] r show ?thesis
    by (simp add: registered_run)
qed

text \<open>
  C4. For a registered client, when the store answers the first three commands, the
  history can be read and the call of the model raises, \<open>chat\<close> returns the prefix
  followed by the text of the failure (a non-empty string), the list of the session is the
  old list followed by the user message only, and the model was called once.
\<close>

theorem model_failure_keeps_user_turn:
  assumes "answers 3 w"
    and "db w (system_prompt_key client_id) = Some (RString p)" and "p \<noteq> []"
    and "cmd_LRANGE_all (chat_key (chat_id user_id client_id)) (db w) = Inr (old, db w)"
    and "assemble (Some (Msg ''system'' p)) (old @ [json_dumps (Msg ''user'' query)]) query = Inr prompt"
    and "llm_invoke env prompt = Inl m"
  shows "fst (chat env user_id client_id query w) = ''Error occurred: '' @ exc_str env (LLMError m)
       \<and> fst (chat env user_id client_id query w) \<noteq> []
       \<and> db (snd (chat env user_id client_id query w))
           = (db w)(chat_key (chat_id user_id client_id) \<mapsto> RList (old @ [json_dumps (Msg ''user'' query)]))
       \<and> cmd_LRANGE_all (chat_key (chat_id user_id client_id)) (db (snd (chat env user_id client_id query w)))
           = Inr (old @ [json_dumps (Msg ''user'' query)], db (snd (chat env user_id client_id query w)))
       \<and> prompts (snd (chat env user_id client_id query w)) = prompts w @ [prompt]"
  using chat_try_steps [OF assms(1-4), of env query] assms(5,6)
  by (simp add: chat_def cmd_LRANGE_all_def)

theorem model_failure_keeps_user_turn_witness:
  "answers 3 registered
   \<and> db registered (system_prompt_key ''15'') = Some (RString ''You are helpful.'')
   \<and> cmd_LRANGE_all (chat_key (chat_id ''12'' ''15'')) (db registered) = Inr ([], db registered)
   \<and> assemble (Some (Msg ''system'' ''You are helpful.'')) ([] @ [json_dumps (Msg ''user'' ''hi'')]) ''hi''
       = Inr ''system: You are helpful.\<newline>user: hi\<newline>user: hi''
   \<and> llm_invoke failing_env ''system: You are helpful.\<newline>user: hi\<newline>user: hi'' = Inl ''rate limit''
   \<and> fst (chat failing_env ''12'' ''15'' ''hi'' registered) = ''Error occurred: rate limit''
   \<and> db (snd (chat failing_env ''12'' ''15'' ''hi'' registered))
       = (db registered)(chat_key (chat_id ''12'' ''15'') \<mapsto> RList [json_dumps (Msg ''user'' ''hi'')])"
proof -
  have a: "answers 3 registered" by (simp add: answers_def registered_def fresh_def)
  have p: "db registered (system_prompt_key ''15'') = Some (RString ''You are helpful.'')"
    by (simp add: registered_def)
  have n: "''You are helpful.'' \<noteq> []" by simp
  have o: "cmd_LRANGE_all (chat_key (chat_id ''12'' ''15'')) (db registered) = Inr ([], db registered)"
    by (simp add: cmd_LRANGE_all_def registered_def fresh_def system_prompt_key_def chat_key_def)
  have asm: "assemble (Some (Msg ''system'' ''You are helpful.'')) ([] @ [json_dumps (Msg ''user'' ''hi'')]) ''hi''
      = Inr ''system: You are helpful.\<newline>user: hi\<newline>user: hi''"
    by (simp add: assemble_def format_message_dumps)
  have l: "llm_invoke failing_env ''system: You are helpful.\<newline>user: hi\<newline>user: hi'' = Inl ''rate limit''"
    by (simp add: failing_env_def)
  from model_failure_keeps_user_turn [OF a p n o asm l] a p o asm l
  show ?thesis by (simp add: failing_env_def scenario_env_def py_str_def decimal_403)
qed

lemma append_fails_facts:
  "answers 3 append_fails"
  "db append_fails (system_prompt_key ''15'') = Some (RString ''You are helpful.'')"
  "cmd_LRANGE_all (chat_key (chat_id ''12'' ''15'')) (db append_fails) = Inr ([], db append_fails)"
  "assemble (Some (Msg ''system'' ''You are helpful.'')) ([] @ [json_dumps (Msg ''user'' ''What is 2+2?'')]) ''What is 2+2?''
      = Inr ''system: You are helpful.\<newline>user: What is 2+2?\<newline>user: What is 2+2?''"
  "tl (tl (tl (faults append_fails))) = Some ''connection lost'' # []"
  by (simp_all add: answers_def append_fails_def registered_def fresh_def cmd_LRANGE_all_def
        system_prompt_key_def chat_key_def assemble_def format_message_dumps numeral_3_eq_3)

text \<open>
  C3, as the specification states it, fails: the append of the assistant message stands
  inside the same \<open>try\<close> block, so when it raises after the model replied 4, the
  caller gets the diagnostic string and not the reply.
\<close>

theorem assistant_append_failure_counterexample:
  "llm_invoke (scenario_env ''4'')
       ''system: You are helpful.\<newline>user: What is 2+2?\<newline>user: What is 2+2?'' = Inr ''4''
   \<and> prompts (snd (chat (scenario_env ''4'') ''12'' ''15'' ''What is 2+2?'' append_fails))
       = [''system: You are helpful.\<newline>user: What is 2+2?\<newline>user: What is 2+2?'']
   \<and> fst (chat (scenario_env ''4'') ''12'' ''15'' ''What is 2+2?'' append_fails)
       = ''Error occurred: connection lost''
   \<and> fst (chat (scenario_env ''4'') ''12'' ''15'' ''What is 2+2?'' append_fails) \<noteq> ''4''"
  using chat_try_steps [OF append_fails_facts(1,2) _ append_fails_facts(3),
      of "scenario_env ''4''" "''What is 2+2?''"] append_fails_facts(4)
  by (simp add: chat_def scenario_env_def py_str_def decimal_403 store_message_def redis_cmd_def
        append_fails_def registered_def fresh_def)

text \<open>
  C3, amended. After the model replied, a failing append of the assistant message makes
  \<open>chat\<close> return the prefix followed by the text of the store failure, and the list of
  the session holds the user message but no assistant message; the reply is returned when
  the append succeeds, and then both messages are in the list.
\<close>

theorem assistant_append_failure:
  assumes "answers 3 w"
    and "db w (system_prompt_key client_id) = Some (RString p)" and "p \<noteq> []"
    and "cmd_LRANGE_all (chat_key (chat_id user_id client_id)) (db w) = Inr (old, db w)"
    and "assemble (Some (Msg ''system'' p)) (old @ [json_dumps (Msg ''user'' query)]) query = Inr prompt"
    and "llm_invoke env prompt = Inr reply"
  shows "(\<forall>m fs. tl (tl (tl (faults w))) = Some m # fs \<longrightarrow>
            fst (chat env user_id client_id query w) = ''Error occurred: '' @ exc_str env (RedisError m)
          \<and> db (snd (chat env user_id client_id query w))
              = (db w)(chat_key (chat_id user_id client_id) \<mapsto> RList (old @ [json_dumps (Msg ''user'' query)])))
       \<and> (answers 4 w \<longrightarrow>
            fst (chat env user_id client_id query w) = reply
          \<and> db (snd (chat env user_id client_id query w))
              = (db w)(chat_key (chat_id user_id client_id) \<mapsto>
                  RList (old @ [json_dumps (Msg ''user'' query), json_dumps (Msg ''assistant'' reply)])))"
proof -
  let ?w4 = "w\<lparr>db := (db w)(chat_key (chat_id user_id client_id) \<mapsto> RList (old @ [json_dumps (Msg ''user'' query)])),
               faults := tl (tl (tl (faults w))), prompts := prompts w @ [prompt]\<rparr>"
  have run: "chat_try env user_id client_id query w =
      (case store_message (chat_id user_id client_id) (json_dumps (Msg ''assistant'' reply)) ?w4 of
         (Inl e, w5) \<Rightarrow> (Inl e, w5) | (Inr x, w5) \<Rightarrow> (Inr reply, w5))"
    using chat_try_steps [OF assms(1-4), of env query] assms(5,6) by simp
  have fail: "fst (chat env user_id client_id query w) = ''Error occurred: '' @ exc_str env (RedisError m)
          \<and> db (snd (chat env user_id client_id query w))
              = (db w)(chat_key (chat_id user_id client_id) \<mapsto> RList (old @ [json_dumps (Msg ''user'' query)]))"
    if "tl (tl (tl (faults w))) = Some m # fs" for m fs
    using that run store_message_fault [of ?w4 m fs]
    by (simp add: chat_def)
  have ok: "fst (chat env user_id client_id query w) = reply
          \<and> db (snd (chat env user_id client_id query w))
              = (db w)(chat_key (chat_id user_id client_id) \<mapsto>
                  RList (old @ [json_dumps (Msg ''user'' query), json_dumps (Msg ''assistant'' reply)]))"
    if "answers 4 w"
  proof -
    from that have "answers (Suc (Suc (Suc (Suc 0)))) w" by (simp add: eval_nat_numeral)
    then have "answers (Suc 0) (w\<lparr>faults := tl (tl (tl (faults w)))\<rparr>)"
      using answers_tl answers_tl [THEN answers_tl] answers_tl [THEN answers_tl, THEN answers_tl]
      by fastforce
    then have "answers (Suc 0) ?w4" by (simp add: answers_def)
    from store_message_answers [OF this, of "chat_id user_id client_id"
        "old @ [json_dumps (Msg ''user'' query)]" "json_dumps (Msg ''assistant'' reply)"] run
    show ?thesis by (simp add: chat_def cmd_LRANGE_all_def)
  qed
  from fail ok show ?thesis by blast
qed

theorem assistant_append_failure_witness:
  "answers 3 append_fails
   \<and> db append_fails (system_prompt_key ''15'') = Some (RString ''You are helpful.'')
   \<and> cmd_LRANGE_all (chat_key (chat_id ''12'' ''15'')) (db append_fails) = Inr ([], db append_fails)
   \<and> llm_invoke (scenario_env ''4'')
       ''system: You are helpful.\<newline>user: What is 2+2?\<newline>user: What is 2+2?'' = Inr ''4''
   \<and> tl (tl (tl (faults append_fails))) = [Some ''connection lost'']
   \<and> fst (chat (scenario_env ''4'') ''12'' ''15'' ''What is 2+2?'' append_fails)
       = ''Error occurred: connection lost''
   \<and> db (snd (chat (scenario_env ''4'') ''12'' ''15'' ''What is 2+2?'' append_fails))
       = (db append_fails)(chat_key (chat_id ''12'' ''15'') \<mapsto> RList [json_dumps (Msg ''user'' ''What is 2+2?'')])"
proof -
  have n: "''You are helpful.'' \<noteq> []" by simp
  have l: "llm_invoke (scenario_env ''4'')
       ''system: You are helpful.\<newline>user: What is 2+2?\<newline>user: What is 2+2?'' = Inr ''4''"
    by (simp add: scenario_env_def py_str_def decimal_403)
  from assistant_append_failure [OF append_fails_facts(1,2) n append_fails_facts(3,4) l]
    append_fails_facts l
  show ?thesis by (simp add: scenario_env_def py_str_def decimal_403)
qed

lemma json_dumps_user: \<open>json_dumps (Msg ''user'' ''What is 2+2?'') = ''{"role": "user", "text": "What is 2+2?"}''\<close>
  by (simp add: json_dumps_def encode_basestring_ascii_def escape_char_def)

lemma json_dumps_assistant: \<open>json_dumps (Msg ''assistant'' ''4'') = ''{"role": "assistant", "text": "4"}''\<close>
  by (simp add: json_dumps_def encode_basestring_ascii_def escape_char_def)

text \<open>
  C7. Client 15 registers its prompt on an empty store, user 12 asks, the model answers
  4: \<open>chat\<close> returns 4, and the list of session 12:15 then holds exactly the user
  record followed by the assistant record, which the history formatter reads back as
  the two turns.
\<close>

theorem scenario_two_turns:
  \<open>set_system_prompt ''15'' ''You are helpful.'' fresh = (True, registered)
   \<and> fst (chat (scenario_env ''4'') ''12'' ''15'' ''What is 2+2?'' registered) = ''4''
   \<and> fst (get_messages ''12:15'' (snd (chat (scenario_env ''4'') ''12'' ''15'' ''What is 2+2?'' registered)))
       = Inr [''{"role": "user", "text": "What is 2+2?"}'', ''{"role": "assistant", "text": "4"}'']
   \<and> map format_message
         [''{"role": "user", "text": "What is 2+2?"}'', ''{"role": "assistant", "text": "4"}'']
       = [Inr ''user: What is 2+2?'', Inr ''assistant: 4'']\<close>
proof -
  have s: "set_system_prompt ''15'' ''You are helpful.'' fresh = (True, registered)"
    by (simp add: set_system_prompt_def set_value_def redis_cmd_def cmd_SET_def fresh_def registered_def)
  have c: "chat (scenario_env ''4'') ''12'' ''15'' ''What is 2+2?'' registered =
     (''4'',
      registered\<lparr>db := (db registered)(chat_key (chat_id ''12'' ''15'') \<mapsto>
                    RList [json_dumps (Msg ''user'' ''What is 2+2?''), json_dumps (Msg ''assistant'' ''4'')]),
                 prompts := [''system: You are helpful.\<newline>user: What is 2+2?\<newline>user: What is 2+2?'']\<rparr>)"
    by (simp add: chat_def registered_run)
  have k: "chat_id ''12'' ''15'' = ''12:15''" by (simp add: chat_id_def)
  have g: "fst (get_messages ''12:15'' (snd (chat (scenario_env ''4'') ''12'' ''15'' ''What is 2+2?'' registered)))
       = Inr [json_dumps (Msg ''user'' ''What is 2+2?''), json_dumps (Msg ''assistant'' ''4'')]"
    unfolding c by (simp add: k get_messages_def redis_cmd_def cmd_LRANGE_all_def registered_def fresh_def)
  have f: "map format_message
         [json_dumps (Msg ''user'' ''What is 2+2?''), json_dumps (Msg ''assistant'' ''4'')]
       = [Inr ''user: What is 2+2?'', Inr ''assistant: 4'']"
    by (simp add: format_message_dumps)
  from s c g f show ?thesis
    by (simp only: json_dumps_user json_dumps_assistant fst_conv simp_thms)
qed

lemma chat_try_lookup_fault:
  "faults w = Some m # fs \<Longrightarrow> chat_try env u c q w = (Inl (RedisError m), w\<lparr>faults := fs\<rparr>)"
  by (simp add: chat_try_def get_system_prompt_def get_value_def redis_cmd_fault)

lemma chat_try_prompt_wrongtype:
  "answers 1 w \<Longrightarrow> db w (system_prompt_key c) = Some (RList xs) \<Longrightarrow>
   chat_try env u c q w = (Inl wrongtype, w\<lparr>faults := tl (faults w)\<rparr>)"
  by (simp add: chat_try_def get_system_prompt_answers [of 0])

lemma chat_try_unregistered:
  "answers 1 w \<Longrightarrow>
   db w (system_prompt_key c) = None \<or> db w (system_prompt_key c) = Some (RString []) \<Longrightarrow>
   chat_try env u c q w = (Inl unregistered, w\<lparr>faults := tl (faults w)\<rparr>)"
  by (auto simp: chat_try_def get_system_prompt_answers [of 0])

lemma chat_try_append_fault:
  assumes "answers 1 w" "db w (system_prompt_key c) = Some (RString p)" "p \<noteq> []"
    and "tl (faults w) = Some m # fs"
  shows "chat_try env u c q w = (Inl (RedisError m), w\<lparr>faults := fs\<rparr>)"
  using assms store_message_fault [of "w\<lparr>faults := tl (faults w)\<rparr>" m fs]
  by (simp add: chat_try_def get_system_prompt_answers [of 0])

lemma answers_2: "answers 2 w \<Longrightarrow> answers (Suc 0) w \<and> answers (Suc 0) (w\<lparr>faults := tl (faults w)\<rparr>)"
  by (cases "faults w") (auto simp: answers_def eval_nat_numeral)

lemma chat_try_append_wrongtype:
  assumes "answers 2 w" "db w (system_prompt_key c) = Some (RString p)" "p \<noteq> []"
    and "db w (chat_key (chat_id u c)) = Some (RString s)"
  shows "fst (chat_try env u c q w) = Inl wrongtype"
  using assms answers_2 [OF assms(1)]
  by (simp add: chat_try_def get_system_prompt_answers [of 0] store_message_def
        redis_cmd_answers [of 0] cmd_RPUSH_def)

lemma answers_3: "answers 3 w \<Longrightarrow> answers 2 w"
  using set_take_subset_set_take [of 2 3 "faults w"] by (auto simp: answers_def)

lemma chat_try_read_fault:
  assumes "answers 2 w" "db w (system_prompt_key c) = Some (RString p)" "p \<noteq> []"
    and "cmd_LRANGE_all (chat_key (chat_id u c)) (db w) = Inr (old, db w)"
    and "tl (tl (faults w)) = Some m # fs"
  shows "fst (chat_try env u c q w) = Inl (RedisError m)"
proof -
  from answers_2 [OF assms(1)] have a: "answers (Suc 0) w" "answers (Suc 0) (w\<lparr>faults := tl (faults w)\<rparr>)"
    by auto
  have s: "store_message (chat_id u c) (json_dumps (Msg ''user'' q)) (w\<lparr>faults := tl (faults w)\<rparr>)
     = (Inr (), w\<lparr>db := (db w)(chat_key (chat_id u c) \<mapsto> RList (old @ [json_dumps (Msg ''user'' q)])),
                  faults := tl (tl (faults w))\<rparr>)"
    using store_message_answers [OF a(2), of "chat_id u c" old] assms(4) by simp
  show ?thesis
    using a(1) assms(2,3,5) s
    by (simp add: chat_try_def get_system_prompt_answers [of 0] get_messages_def redis_cmd_fault)
qed


lemma chat_of_error:
  "fst (chat_try env u c q w) = Inl e \<Longrightarrow>
   fst (chat env u c q w) = ''Error occurred: '' @ exc_str env e"
  by (cases "chat_try env u c q w") (simp add: chat_def)

lemma registered_facts:
  "answers 4 registered"
  "answers 3 registered"
  "answers 2 registered"
  "answers 1 registered"
  "db registered (system_prompt_key ''15'') = Some (RString ''You are helpful.'')"
  "cmd_LRANGE_all (chat_key (chat_id ''12'' ''15'')) (db registered) = Inr ([], db registered)"
  "assemble (Some (Msg ''system'' ''You are helpful.'')) ([] @ [json_dumps (Msg ''user'' ''What is 2+2?'')]) ''What is 2+2?''
      = Inr ''system: You are helpful.\<newline>user: What is 2+2?\<newline>user: What is 2+2?''"
  by (simp_all add: answers_def registered_def fresh_def cmd_LRANGE_all_def
        system_prompt_key_def chat_key_def assemble_def format_message_dumps)

lemma append_fails_answers:
  "answers 2 append_fails"
  "answers 1 append_fails"
  by (simp_all add: answers_def append_fails_def registered_def fresh_def eval_nat_numeral)

section \<open>The assembled prompt\<close>












text \<open>
  C9. \<open>chat\<close> returns a string on every path through its body, whatever the store and
  the model do. The paths are told apart by the schedule of faults, the two keys of the
  database and the answer of the model: a fault of the prompt lookup, a prompt key of the
  wrong type, an absent or empty prompt, a fault of the first append, a session key of the
  wrong type, a fault of the history read, a history that cannot be formatted, a failing
  model call and a fault of the second append each give the prefix \<open>Error occurred: \<close>
  followed by the text of that exception; only when all four commands are answered, the
  history is readable and the model replies is the result the reply itself. Nothing but
  the text tells the two kinds of result apart: the rejection of an unregistered client
  and the reply of a model that answers with the same text are the same string.
\<close>

theorem chat_always_returns_a_string:
  "(\<forall>m fs. faults w = Some m # fs \<longrightarrow>
       fst (chat env user_id client_id query w) = ''Error occurred: '' @ exc_str env (RedisError m))
   \<and> (answers 1 w \<longrightarrow>
        (\<forall>xs. db w (system_prompt_key client_id) = Some (RList xs) \<longrightarrow>
           fst (chat env user_id client_id query w) = ''Error occurred: '' @ exc_str env wrongtype)
      \<and> (db w (system_prompt_key client_id) = None
           \<or> db w (system_prompt_key client_id) = Some (RString []) \<longrightarrow>
           fst (chat env user_id client_id query w)
             = ''Error occurred: ''
               @ exc_str env (HTTPException 403 ''Client not registered or unauthorized.''))
      \<and> (\<forall>p. db w (system_prompt_key client_id) = Some (RString p) \<and> p \<noteq> [] \<longrightarrow>
           (\<forall>m fs. tl (faults w) = Some m # fs \<longrightarrow>
              fst (chat env user_id client_id query w)
                = ''Error occurred: '' @ exc_str env (RedisError m))
         \<and> (answers 2 w \<longrightarrow>
              (\<forall>s. db w (chat_key (chat_id user_id client_id)) = Some (RString s) \<longrightarrow>
                 fst (chat env user_id client_id query w)
                   = ''Error occurred: '' @ exc_str env wrongtype)
            \<and> (\<forall>old. cmd_LRANGE_all (chat_key (chat_id user_id client_id)) (db w) = Inr (old, db w) \<longrightarrow>
                 (\<forall>m fs. tl (tl (faults w)) = Some m # fs \<longrightarrow>
                    fst (chat env user_id client_id query w)
                      = ''Error occurred: '' @ exc_str env (RedisError m))
               \<and> (answers 3 w \<longrightarrow>
                    (\<forall>e. assemble (Some (Msg ''system'' p))
                            (old @ [json_dumps (Msg ''user'' query)]) query = Inl e \<longrightarrow>
                       fst (chat env user_id client_id query w)
                         = ''Error occurred: '' @ exc_str env e)
                  \<and> (\<forall>prompt. assemble (Some (Msg ''system'' p))
                            (old @ [json_dumps (Msg ''user'' query)]) query = Inr prompt \<longrightarrow>
                       (\<forall>m. llm_invoke env prompt = Inl m \<longrightarrow>
                          fst (chat env user_id client_id query w)
                            = ''Error occurred: '' @ exc_str env (LLMError m))
                     \<and> (\<forall>reply. llm_invoke env prompt = Inr reply \<longrightarrow>
                          (\<forall>m fs. tl (tl (tl (faults w))) = Some m # fs \<longrightarrow>
                             fst (chat env user_id client_id query w)
                               = ''Error occurred: '' @ exc_str env (RedisError m))
                        \<and> (answers 4 w \<longrightarrow>
                             fst (chat env user_id client_id query w) = reply))))))))
   \<and> fst (chat_try (scenario_env ''4'') ''12'' ''15'' ''What is 2+2?'' fresh)
       = Inl (HTTPException 403 ''Client not registered or unauthorized.'')
   \<and> fst (chat_try (scenario_env ''Error occurred: 403: Client not registered or unauthorized.'')
            ''12'' ''15'' ''What is 2+2?'' registered)
       = Inr ''Error occurred: 403: Client not registered or unauthorized.''
   \<and> fst (chat (scenario_env ''4'') ''12'' ''15'' ''What is 2+2?'' fresh)
       = fst (chat (scenario_env ''Error occurred: 403: Client not registered or unauthorized.'')
                ''12'' ''15'' ''What is 2+2?'' registered)"
proof -
  let ?r = "fst (chat env user_id client_id query w)"
  let ?EO = "\<lambda>e. ''Error occurred: '' @ exc_str env e"
  have p1: "?r = ?EO (RedisError m)" if "faults w = Some m # fs" for m fs
    using chat_try_lookup_fault [OF that, of env user_id client_id query]
    by (simp add: chat_def)
  have p2: "?r = ?EO wrongtype"
    if "answers 1 w" "db w (system_prompt_key client_id) = Some (RList xs)" for xs
    using chat_try_prompt_wrongtype [OF that, of env user_id query]
    by (simp add: chat_def)
  have p3: "?r = ?EO (HTTPException 403 ''Client not registered or unauthorized.'')"
    if "answers 1 w"
      "db w (system_prompt_key client_id) = None
       \<or> db w (system_prompt_key client_id) = Some (RString [])"
    using chat_try_unregistered [OF that, of env user_id query]
    by (simp add: chat_def unregistered_def)
  have p4: "?r = ?EO (RedisError m)"
    if "answers 1 w" "db w (system_prompt_key client_id) = Some (RString p)" "p \<noteq> []"
      "tl (faults w) = Some m # fs" for p m fs
    using chat_try_append_fault [OF that, of env user_id query]
    by (simp add: chat_def)
  have p5: "?r = ?EO wrongtype"
    if "answers 2 w" "db w (system_prompt_key client_id) = Some (RString p)" "p \<noteq> []"
      "db w (chat_key (chat_id user_id client_id)) = Some (RString s)" for p s
    using chat_try_append_wrongtype [OF that, of env query]
    by (rule chat_of_error)
  have p6: "?r = ?EO (RedisError m)"
    if "answers 2 w" "db w (system_prompt_key client_id) = Some (RString p)" "p \<noteq> []"
      "cmd_LRANGE_all (chat_key (chat_id user_id client_id)) (db w) = Inr (old, db w)"
      "tl (tl (faults w)) = Some m # fs" for p old m fs
    using chat_try_read_fault [OF that, of env query]
    by (rule chat_of_error)
  have p7: "?r = ?EO e"
    if "answers 3 w" "db w (system_prompt_key client_id) = Some (RString p)" "p \<noteq> []"
      "cmd_LRANGE_all (chat_key (chat_id user_id client_id)) (db w) = Inr (old, db w)"
      "assemble (Some (Msg ''system'' p)) (old @ [json_dumps (Msg ''user'' query)]) query = Inl e"
    for p old e
    using chat_try_steps [OF that(1-4), of env query] that(5)
    by (simp add: chat_def)
  have p8: "?r = ?EO (LLMError m)"
    if "answers 3 w" "db w (system_prompt_key client_id) = Some (RString p)" "p \<noteq> []"
      "cmd_LRANGE_all (chat_key (chat_id user_id client_id)) (db w) = Inr (old, db w)"
      "assemble (Some (Msg ''system'' p)) (old @ [json_dumps (Msg ''user'' query)]) query = Inr prompt"
      "llm_invoke env prompt = Inl m"
    for p old prompt m
    using chat_try_steps [OF that(1-4), of env query] that(5,6)
    by (simp add: chat_def)
  have p9: "?r = ?EO (RedisError m)"
    if "answers 3 w" "db w (system_prompt_key client_id) = Some (RString p)" "p \<noteq> []"
      "cmd_LRANGE_all (chat_key (chat_id user_id client_id)) (db w) = Inr (old, db w)"
      "assemble (Some (Msg ''system'' p)) (old @ [json_dumps (Msg ''user'' query)]) query = Inr prompt"
      "llm_invoke env prompt = Inr reply" "tl (tl (tl (faults w))) = Some m # fs"
    for p old prompt reply m fs
    using chat_try_steps [OF that(1-4), of env query] that(5,6,7)
      store_message_fault [of "w\<lparr>db := (db w)(chat_key (chat_id user_id client_id) \<mapsto>
                RList (old @ [json_dumps (Msg ''user'' query)])),
              faults := tl (tl (tl (faults w))), prompts := prompts w @ [prompt]\<rparr>" m fs]
    by (simp add: chat_def)
  have p10: "?r = reply"
    if "answers 4 w" "db w (system_prompt_key client_id) = Some (RString p)" "p \<noteq> []"
      "cmd_LRANGE_all (chat_key (chat_id user_id client_id)) (db w) = Inr (old, db w)"
      "assemble (Some (Msg ''system'' p)) (old @ [json_dumps (Msg ''user'' query)]) query = Inr prompt"
      "llm_invoke env prompt = Inr reply"
    for p old prompt reply
  proof -
    from that(1) have a4: "answers (Suc (Suc (Suc (Suc 0)))) w" by (simp add: eval_nat_numeral)
    then have a3: "answers 3 w"
      using set_take_subset_set_take [of 3 4 "faults w"] by (auto simp: answers_def eval_nat_numeral)
    from a4 have "answers (Suc 0) (w\<lparr>faults := tl (tl (tl (faults w)))\<rparr>)"
      using answers_tl answers_tl [THEN answers_tl] answers_tl [THEN answers_tl, THEN answers_tl]
      by fastforce
    then have "answers (Suc 0) (w\<lparr>db := (db w)(chat_key (chat_id user_id client_id) \<mapsto>
                RList (old @ [json_dumps (Msg ''user'' query)])),
              faults := tl (tl (tl (faults w))), prompts := prompts w @ [prompt]\<rparr>)"
      by (simp add: answers_def)
    from store_message_answers [OF this, of "chat_id user_id client_id"
        "old @ [json_dumps (Msg ''user'' query)]" "json_dumps (Msg ''assistant'' reply)"]
      chat_try_steps [OF a3 that(2-4), of env query] that(5,6)
    show ?thesis by (simp add: chat_def cmd_LRANGE_all_def)
  qed
  have unreg: "chat_try (scenario_env ''4'') ''12'' ''15'' ''What is 2+2?'' fresh
       = (Inl (HTTPException 403 ''Client not registered or unauthorized.''), fresh)"
    by (simp add: chat_try_def get_system_prompt_def get_value_def redis_cmd_def cmd_GET_def
          fresh_def unregistered_def)
  have c1: "fst (chat (scenario_env ''4'') ''12'' ''15'' ''What is 2+2?'' fresh)
       = ''Error occurred: 403: Client not registered or unauthorized.''"
    using unreg by (simp add: chat_def scenario_env_def py_str_def decimal_403)
  have c2: "fst (chat (scenario_env ''Error occurred: 403: Client not registered or unauthorized.'')
                ''12'' ''15'' ''What is 2+2?'' registered)
       = ''Error occurred: 403: Client not registered or unauthorized.''"
    by (simp add: chat_def registered_run)
  have c3: "fst (chat_try (scenario_env ''Error occurred: 403: Client not registered or unauthorized.'')
            ''12'' ''15'' ''What is 2+2?'' registered)
       = Inr ''Error occurred: 403: Client not registered or unauthorized.''"
    by (simp add: registered_run)
  from unreg have c4: "fst (chat_try (scenario_env ''4'') ''12'' ''15'' ''What is 2+2?'' fresh)
       = Inl (HTTPException 403 ''Client not registered or unauthorized.'')"
    by simp
  have c5: "fst (chat (scenario_env ''4'') ''12'' ''15'' ''What is 2+2?'' fresh)
       = fst (chat (scenario_env ''Error occurred: 403: Client not registered or unauthorized.'')
                ''12'' ''15'' ''What is 2+2?'' registered)"
    using c1 c2 by (simp only:)
  show ?thesis
    by (intro conjI allI impI; (elim conjE)?;
        (rule c3 c4 c5 | (rule p1 p2 p3 p4 p5 p6 p7 p8 p9 p10; assumption)))
qed

theorem chat_always_returns_a_string_witness:
  "fst (chat (scenario_env ''4'') ''12'' ''15'' ''What is 2+2?'' (fresh\<lparr>faults := [Some ''connection lost'']\<rparr>))
     = ''Error occurred: connection lost''
   \<and> fst (chat (scenario_env ''4'') ''12'' ''15'' ''What is 2+2?'' fresh)
     = ''Error occurred: 403: Client not registered or unauthorized.''
   \<and> fst (chat failing_env ''12'' ''15'' ''What is 2+2?'' registered)
     = ''Error occurred: rate limit''
   \<and> fst (chat (scenario_env ''4'') ''12'' ''15'' ''What is 2+2?'' append_fails)
     = ''Error occurred: connection lost''
   \<and> fst (chat (scenario_env ''4'') ''12'' ''15'' ''What is 2+2?'' registered) = ''4''"
proof -
  have a: "fst (chat (scenario_env ''4'') ''12'' ''15'' ''What is 2+2?'' (fresh\<lparr>faults := [Some ''connection lost'']\<rparr>))
     = ''Error occurred: connection lost''"
    using chat_always_returns_a_string [where w = "fresh\<lparr>faults := [Some ''connection lost'']\<rparr>"
        and env = "scenario_env ''4''" and user_id = "''12''" and client_id = "''15''"
        and query = "''What is 2+2?''"]
    by (simp add: scenario_env_def py_str_def)
  have b: "fst (chat (scenario_env ''4'') ''12'' ''15'' ''What is 2+2?'' fresh)
     = ''Error occurred: 403: Client not registered or unauthorized.''"
    using chat_always_returns_a_string [where w = fresh
        and env = "scenario_env ''4''" and user_id = "''12''" and client_id = "''15''"
        and query = "''What is 2+2?''"]
    by (simp add: scenario_env_def py_str_def decimal_403 answers_def fresh_def)
  have c: "fst (chat failing_env ''12'' ''15'' ''What is 2+2?'' registered)
     = ''Error occurred: rate limit''"
    using chat_always_returns_a_string [where w = registered
        and env = failing_env and user_id = "''12''" and client_id = "''15''"
        and query = "''What is 2+2?''"] registered_facts
    by (simp add: failing_env_def scenario_env_def py_str_def)
  have d: "fst (chat (scenario_env ''4'') ''12'' ''15'' ''What is 2+2?'' append_fails)
     = ''Error occurred: connection lost''"
    using chat_always_returns_a_string [where w = append_fails
        and env = "scenario_env ''4''" and user_id = "''12''" and client_id = "''15''"
        and query = "''What is 2+2?''"] append_fails_facts append_fails_answers
    by (simp add: scenario_env_def py_str_def)
  have e: "fst (chat (scenario_env ''4'') ''12'' ''15'' ''What is 2+2?'' registered) = ''4''"
    using chat_always_returns_a_string [where w = registered
        and env = "scenario_env ''4''" and user_id = "''12''" and client_id = "''15''"
        and query = "''What is 2+2?''"] registered_facts
    by (simp add: scenario_env_def py_str_def)
  from a b c d e show ?thesis by (simp only: simp_thms)
qed

end
